theory Spec2Isabelle
  imports Main
begin

section \<open>The module \<open>ucs_vnic_template_vlan\<close>\<close>

text \<open>
  The module logs into UCS Manager, asks whether the VLAN is already a child of the vNIC
  template and whether it is defined on the Fabric Interconnects, adds it to the template
  when it is defined on the fabric and missing on the template, logs out and reports.

  The UCS Manager SDK (\<open>ucsmsdk\<close>) and the remote system behind it are not part of the
  module. They are a parameter of the model: a handle is any function that, given the
  state of the remote side and a call, gives the reply (a returned value or a raised
  exception) and the next state. Every run records the calls it made and their replies.
\<close>

subsection \<open>Values exchanged with the SDK\<close>

datatype exn = Exception string

datatype managed_object = ManagedObject string

text \<open>What a call of the SDK returns: \<open>None\<close>, one managed object or a list of them.\<close>

datatype pyval = PNone | PObj managed_object | PList "managed_object list"

text \<open>Python's truth value, as tested by \<open>if vnic_vlan_query:\<close> and \<open>if vlan_exists:\<close>.\<close>

fun truthy :: "pyval \<Rightarrow> bool" where
  "truthy PNone = False"
| "truthy (PObj m) = True"
| "truthy (PList ms) = (ms \<noteq> [])"

text \<open>The keyword arguments of \<open>VnicEtherIf(parent_mo_or_dn=..., default_net=..., name=...)\<close>.\<close>

record vnic_ether_if =
  parent_mo_or_dn :: string
  default_net :: string
  name :: string

text \<open>The methods of \<open>ucsm.handle\<close> that the module calls.\<close>

datatype call =
    Login
  | Query_dn string
  | Query_classid string string
  | Add_mo vnic_ether_if
  | Commit
  | Logout

datatype reply = Raised exn | Returned pyval

type_synonym event = "call \<times> reply"

type_synonym 'r ucs_handle = "'r \<Rightarrow> call \<Rightarrow> reply \<times> 'r"

subsection \<open>The state of a run and the ways it ends\<close>

text \<open>
  \<open>remote\<close> is the state of UCS Manager, \<open>trace\<close> the calls made so far with their
  replies, oldest first, and \<open>results\<close> the dictionary \<open>results\<close> of \<open>main\<close>, which the
  helpers update in place.
\<close>

record 'r run =
  remote :: 'r
  trace :: "event list"
  results :: "string \<rightharpoonup> bool"

text \<open>
  \<open>fail_json\<close> is passed either a string or the caught exception itself (\<open>msg=e\<close>).
\<close>

datatype msg = Msg_str string | Msg_exn exn

text \<open>
  A run ends in one of four ways: \<open>module.exit_json(**results)\<close>, \<open>module.fail_json(msg=...)\<close>
  (both leave the process, so no statement after them runs), an exception that no
  \<open>try\<close> catches, or the rejection of the arguments by \<open>AnsibleModule\<close>.
\<close>

datatype stop =
    Exit_json "string \<rightharpoonup> bool"
  | Fail_json msg
  | Uncaught exn
  | Invalid_argument string

definition hcall :: "'r ucs_handle \<Rightarrow> call \<Rightarrow> 'r run \<Rightarrow> reply \<times> 'r run" where
  "hcall ucsm c s =
     (case ucsm (remote s) c of
        (rep, r') \<Rightarrow> (rep, s\<lparr>remote := r', trace := trace s @ [(c, rep)]\<rparr>))"

subsection \<open>The helpers\<close>

definition check_if_vlan_on_vnic ::
  "'r ucs_handle \<Rightarrow> string \<Rightarrow> string \<Rightarrow> 'r run \<Rightarrow> (stop + bool) \<times> 'r run" where
  "check_if_vlan_on_vnic ucsm vnic_templ_dn vlan_name s =
     (let proposed_vlan_dn = vnic_templ_dn @ ''/if-'' @ vlan_name in
      case hcall ucsm (Query_dn proposed_vlan_dn) s of
        (Raised e, s') \<Rightarrow> (Inl (Uncaught e), s')
      | (Returned vnic_vlan_query, s') \<Rightarrow>
          (if truthy vnic_vlan_query then (Inr True, s') else (Inr False, s')))"

definition log_into_ucs :: "'r ucs_handle \<Rightarrow> 'r run \<Rightarrow> (stop + unit) \<times> 'r run" where
  "log_into_ucs ucsm s =
     (case hcall ucsm Login s of
        (Raised e, s') \<Rightarrow> (Inl (Fail_json (Msg_exn e)), s')
      | (Returned v, s') \<Rightarrow> (Inr (), s'\<lparr>results := (results s')(''logged_in'' \<mapsto> True)\<rparr>))"

definition log_out_of_ucs :: "'r ucs_handle \<Rightarrow> 'r run \<Rightarrow> (stop + unit) \<times> 'r run" where
  "log_out_of_ucs ucsm s =
     (case hcall ucsm Logout s of
        (Raised e, s') \<Rightarrow> (Inl (Fail_json (Msg_exn e)), s')
      | (Returned v, s') \<Rightarrow> (Inr (), s'\<lparr>results := (results s')(''logged_out'' \<mapsto> True)\<rparr>))"

definition filter_string :: "string \<Rightarrow> string" where
  \<open>filter_string vlan_name = ''(name, '' @ vlan_name @ '', type="eq")''\<close>

definition check_vlan_exists_on_fi ::
  "'r ucs_handle \<Rightarrow> string \<Rightarrow> 'r run \<Rightarrow> (stop + bool) \<times> 'r run" where
  "check_vlan_exists_on_fi ucsm vlan_name s =
     (case hcall ucsm (Query_classid ''fabricVlan'' (filter_string vlan_name)) s of
        (Raised e, s') \<Rightarrow> (Inl (Uncaught e), s')
      | (Returned vlan_exists, s') \<Rightarrow>
          (if truthy vlan_exists then (Inr True, s') else (Inr False, s')))"

text \<open>
  In \<open>add_vlan_to_vnic_template\<close> the handler is
  \<^verbatim>\<open>except Exception as e: module.fail_json(msg=e); results['changed'] = False\<close>:
  \<open>fail_json\<close> leaves the process, so the assignment after it is never reached and the
  model has no step for it.
\<close>

definition add_vlan_to_vnic_template ::
  "'r ucs_handle \<Rightarrow> string \<Rightarrow> string \<Rightarrow> bool \<Rightarrow> 'r run \<Rightarrow> (stop + unit) \<times> 'r run" where
  "add_vlan_to_vnic_template ucsm vnic_templ_dn vlan_name vlan_on_vnic_template s =
     (let mo = \<lparr>parent_mo_or_dn = vnic_templ_dn, default_net = ''no'', name = vlan_name\<rparr> in
      if \<not> vlan_on_vnic_template then
        (case hcall ucsm (Add_mo mo) s of
           (Raised e, s1) \<Rightarrow> (Inl (Fail_json (Msg_exn e)), s1)
         | (Returned v, s1) \<Rightarrow>
             (case hcall ucsm Commit s1 of
                (Raised e, s2) \<Rightarrow> (Inl (Fail_json (Msg_exn e)), s2)
              | (Returned w, s2) \<Rightarrow>
                  (Inr (), s2\<lparr>results := (results s2)(''changed'' \<mapsto> True)\<rparr>)))
      else (Inr (), s))"

subsection \<open>The arguments\<close>

text \<open>
  The arguments as the playbook gives them. \<open>policy_owner\<close> is optional, with default
  \<open>local\<close> and three accepted values; \<open>AnsibleModule\<close> rejects any other value before
  \<open>main\<close> does anything else.
\<close>

record args =
  param_vlan_name :: string
  param_vnic_template_name :: string
  param_org :: "string list"
  param_policy_owner :: "string option"
  param_hostname :: string
  param_password :: string
  param_username :: string

definition policy_owner_choices :: "string list" where
  "policy_owner_choices = [''local'', ''pending-policy'', ''policy'']"

definition get_policy_owner :: "args \<Rightarrow> string" where
  "get_policy_owner a = (case param_policy_owner a of None \<Rightarrow> ''local'' | Some po \<Rightarrow> po)"

subsection \<open>The path of the vNIC template\<close>

text \<open>
  \<^verbatim>\<open>for org_name in org: vnic_templ_dn += str('org-' + org_name + '/')\<close>, the loop of
  \<open>main\<close>, with the string built so far as accumulator.
\<close>

fun org_loop :: "string \<Rightarrow> string list \<Rightarrow> string" where
  "org_loop vnic_templ_dn [] = vnic_templ_dn"
| "org_loop vnic_templ_dn (org_name # org) =
     org_loop (vnic_templ_dn @ (''org-'' @ org_name @ ''/'')) org"

definition resolve :: "string list \<Rightarrow> string \<Rightarrow> string" where
  "resolve org vnic_template_name =
     org_loop '''' org @ (''lan-conn-templ-'' @ vnic_template_name)"

subsection \<open>\<open>main\<close>\<close>

definition init_run :: "'r \<Rightarrow> 'r run" where
  "init_run r = \<lparr>remote = r, trace = [], results = Map.empty\<rparr>"

definition main :: "'r ucs_handle \<Rightarrow> args \<Rightarrow> 'r \<Rightarrow> stop \<times> 'r run" where
  "main ucsm a r =
     (if get_policy_owner a \<notin> set policy_owner_choices
      then (Invalid_argument ''policy_owner'', init_run r)
      else
        let vlan_name = param_vlan_name a;
            policy_owner = get_policy_owner a;
            vnic_templ_dn = resolve (param_org a) (param_vnic_template_name a)
        in
        case log_into_ucs ucsm (init_run r) of
          (Inl st, s0) \<Rightarrow> (st, s0)
        | (Inr u, s0) \<Rightarrow>
        case check_if_vlan_on_vnic ucsm vnic_templ_dn vlan_name s0 of
          (Inl st, s1) \<Rightarrow> (st, s1)
        | (Inr vlan_on_vnic_template, s1) \<Rightarrow>
        case check_vlan_exists_on_fi ucsm vlan_name s1 of
          (Inl st, s2) \<Rightarrow> (st, s2)
        | (Inr vlan_on_fi, s2) \<Rightarrow>
        if \<not> vlan_on_fi then
          (let s3 = s2\<lparr>results := (results s2)(''changed'' \<mapsto> False)\<rparr> in
           (Fail_json (Msg_str ''VLAN does not exist on UCS Fabric Interconnects''), s3))
        else if \<not> vlan_on_vnic_template then
          (case add_vlan_to_vnic_template ucsm vnic_templ_dn vlan_name
                  vlan_on_vnic_template s2 of
             (Inl st, s3) \<Rightarrow> (st, s3)
           | (Inr u3, s3) \<Rightarrow>
               (case log_out_of_ucs ucsm s3 of
                  (Inl st, s4) \<Rightarrow> (st, s4)
                | (Inr u4, s4) \<Rightarrow> (Exit_json (results s4), s4)))
        else
          (let s3 = s2\<lparr>results := (results s2)(''changed'' \<mapsto> False)\<rparr> in
           case log_out_of_ucs ucsm s3 of
             (Inl st, s4) \<Rightarrow> (st, s4)
           | (Inr u4, s4) \<Rightarrow> (Exit_json (results s4), s4)))"

text \<open>The calls that change the configuration of UCS Manager, and those of a trace.\<close>

fun is_write :: "call \<Rightarrow> bool" where
  "is_write (Add_mo mo) = True"
| "is_write Commit = True"
| "is_write c = False"

definition writes :: "event list \<Rightarrow> event list" where
  "writes tr = filter (\<lambda>ev. is_write (fst ev)) tr"

text \<open>The query of \<open>check_vlan_exists_on_fi\<close>, and its occurrences in a trace.\<close>

fun is_fabric_query :: "call \<Rightarrow> bool" where
  "is_fabric_query (Query_classid class_id filter_str) = (class_id = ''fabricVlan'')"
| "is_fabric_query c = False"

definition fabric_queries :: "event list \<Rightarrow> event list" where
  "fabric_queries tr = filter (\<lambda>ev. is_fabric_query (fst ev)) tr"

text \<open>The calls of a trace that raised an exception.\<close>

fun is_raised :: "reply \<Rightarrow> bool" where
  "is_raised (Raised e) = True"
| "is_raised (Returned v) = False"

definition raised_calls :: "event list \<Rightarrow> event list" where
  "raised_calls tr = filter (\<lambda>ev. is_raised (snd ev)) tr"

subsection \<open>A simulated UCS Manager\<close>

text \<open>
  A small UCS Manager to run the module against: it holds the distinguished names of
  its objects, the names of the VLANs of the fabric and the objects added but not yet
  committed. It answers the calls listed in \<open>raises\<close> with an exception.
\<close>

record ucsm_state =
  objects :: "string list"
  fabric_vlans :: "string list"
  uncommitted :: "vnic_ether_if list"

fun ucsm_sim :: "call list \<Rightarrow> ucsm_state ucs_handle" where
  "ucsm_sim raises r c =
     (if c \<in> set raises then (Raised (Exception ''rejected''), r)
      else case c of
        Login \<Rightarrow> (Returned PNone, r)
      | Logout \<Rightarrow> (Returned PNone, r)
      | Query_dn dn \<Rightarrow>
          (Returned (if dn \<in> set (objects r) then PObj (ManagedObject dn) else PNone), r)
      | Query_classid class_id filter_str \<Rightarrow>
          (Returned (PList (map (\<lambda>v. ManagedObject (''fabric/lan/net-'' @ v))
                      (filter (\<lambda>v. class_id = ''fabricVlan'' \<and> filter_str = filter_string v)
                         (fabric_vlans r)))), r)
      | Add_mo mo \<Rightarrow> (Returned PNone, r\<lparr>uncommitted := uncommitted r @ [mo]\<rparr>)
      | Commit \<Rightarrow>
          (Returned PNone,
           r\<lparr>objects := objects r @ map (\<lambda>mo. parent_mo_or_dn mo @ ''/if-'' @ name mo)
                                       (uncommitted r),
             uncommitted := []\<rparr>))"

definition example_args :: args where
  "example_args =
     \<lparr>param_vlan_name = ''test-vlan_666'', param_vnic_template_name = ''data-A'',
      param_org = [''root'', ''company'', ''test''], param_policy_owner = Some ''local'',
      param_hostname = ''ucs'', param_password = ''pw'', param_username = ''admin''\<rparr>"

definition example_dn :: string where
  "example_dn = ''org-root/org-company/org-test/lan-conn-templ-data-A''"

definition example_mo :: vnic_ether_if where
  "example_mo = \<lparr>parent_mo_or_dn = example_dn, default_net = ''no'', name = ''test-vlan_666''\<rparr>"

text \<open>Three states of UCS Manager: the VLAN on the fabric only, nowhere, and on both.\<close>

definition fabric_only :: ucsm_state where
  "fabric_only = \<lparr>objects = [], fabric_vlans = [''test-vlan_666''], uncommitted = []\<rparr>"

definition no_vlan :: ucsm_state where
  "no_vlan = \<lparr>objects = [], fabric_vlans = [], uncommitted = []\<rparr>"

definition associated :: ucsm_state where
  "associated =
     \<lparr>objects = [example_dn @ ''/if-test-vlan_666''],
      fabric_vlans = [''test-vlan_666''], uncommitted = []\<rparr>"

text \<open>The events of the example runs.\<close>

definition login_ok :: event where
  "login_ok = (Login, Returned PNone)"

definition target_miss :: event where
  "target_miss = (Query_dn (example_dn @ ''/if-test-vlan_666''), Returned PNone)"

definition target_hit :: event where
  "target_hit =
     (Query_dn (example_dn @ ''/if-test-vlan_666''),
      Returned (PObj (ManagedObject (example_dn @ ''/if-test-vlan_666''))))"

definition fabric_miss :: event where
  "fabric_miss =
     (Query_classid ''fabricVlan'' (filter_string ''test-vlan_666''), Returned (PList []))"

definition fabric_hit :: event where
  "fabric_hit =
     (Query_classid ''fabricVlan'' (filter_string ''test-vlan_666''),
      Returned (PList [ManagedObject ''fabric/lan/net-test-vlan_666'']))"

definition rejected :: reply where
  "rejected = Raised (Exception ''rejected'')"

text \<open>The example with an empty \<open>org\<close>.\<close>

definition no_org_args :: args where
  "no_org_args = example_args\<lparr>param_org := []\<rparr>"

definition no_org_mo :: vnic_ether_if where
  "no_org_mo =
     \<lparr>parent_mo_or_dn = ''lan-conn-templ-data-A'', default_net = ''no'', name = ''test-vlan_666''\<rparr>"

section \<open>The shapes of a run\<close>

text \<open>
  Each helper makes its call once and goes on according to the reply; \<open>main\<close> strings
  them together, so a run has one of eleven shapes.
\<close>

lemma log_into_ucs_cases:
  obtains (raised) e s' where "log_into_ucs ucsm s = (Inl (Fail_json (Msg_exn e)), s')"
      "trace s' = trace s @ [(Login, Raised e)]" "results s' = results s"
      "\<exists>r'. fst (ucsm r' Login) = Raised e"
  | (returned) v s' where "log_into_ucs ucsm s = (Inr (), s')"
      "trace s' = trace s @ [(Login, Returned v)]"
      "results s' = (results s)(''logged_in'' \<mapsto> True)"
  apply atomize_elim
  apply (cases "ucsm (remote s) Login")
  subgoal for rep r'
    by (cases rep) (auto simp: log_into_ucs_def hcall_def intro: exI[of _ "remote s"])
  done

lemma log_out_of_ucs_cases:
  obtains (raised) e s' where "log_out_of_ucs ucsm s = (Inl (Fail_json (Msg_exn e)), s')"
      "trace s' = trace s @ [(Logout, Raised e)]" "results s' = results s"
      "\<exists>r'. fst (ucsm r' Logout) = Raised e"
  | (returned) v s' where "log_out_of_ucs ucsm s = (Inr (), s')"
      "trace s' = trace s @ [(Logout, Returned v)]"
      "results s' = (results s)(''logged_out'' \<mapsto> True)"
  apply atomize_elim
  apply (cases "ucsm (remote s) Logout")
  subgoal for rep r'
    by (cases rep) (auto simp: log_out_of_ucs_def hcall_def intro: exI[of _ "remote s"])
  done

lemma check_if_vlan_on_vnic_cases:
  obtains (raised) e s' where
      "check_if_vlan_on_vnic ucsm vnic_templ_dn vlan_name s = (Inl (Uncaught e), s')"
      "trace s' = trace s @ [(Query_dn (vnic_templ_dn @ ''/if-'' @ vlan_name), Raised e)]"
      "results s' = results s"
      "\<exists>r'. fst (ucsm r' (Query_dn (vnic_templ_dn @ ''/if-'' @ vlan_name))) = Raised e"
  | (returned) v s' where
      "check_if_vlan_on_vnic ucsm vnic_templ_dn vlan_name s = (Inr (truthy v), s')"
      "trace s' = trace s @ [(Query_dn (vnic_templ_dn @ ''/if-'' @ vlan_name), Returned v)]"
      "results s' = results s"
  apply atomize_elim
  apply (cases "ucsm (remote s) (Query_dn (vnic_templ_dn @ ''/if-'' @ vlan_name))")
  subgoal for rep r'
    by (cases rep)
       (auto simp: check_if_vlan_on_vnic_def hcall_def Let_def intro: exI[of _ "remote s"])
  done

lemma check_vlan_exists_on_fi_cases:
  obtains (raised) e s' where
      "check_vlan_exists_on_fi ucsm vlan_name s = (Inl (Uncaught e), s')"
      "trace s' = trace s @ [(Query_classid ''fabricVlan'' (filter_string vlan_name), Raised e)]"
      "results s' = results s"
      "\<exists>r'. fst (ucsm r' (Query_classid ''fabricVlan'' (filter_string vlan_name))) = Raised e"
  | (returned) v s' where
      "check_vlan_exists_on_fi ucsm vlan_name s = (Inr (truthy v), s')"
      "trace s' = trace s @ [(Query_classid ''fabricVlan'' (filter_string vlan_name), Returned v)]"
      "results s' = results s"
  apply atomize_elim
  apply (cases "ucsm (remote s) (Query_classid ''fabricVlan'' (filter_string vlan_name))")
  subgoal for rep r'
    by (cases rep)
       (auto simp: check_vlan_exists_on_fi_def hcall_def intro: exI[of _ "remote s"])
  done

lemma add_vlan_to_vnic_template_cases:
  fixes ucsm :: "'r ucs_handle" and vnic_templ_dn vlan_name :: string
  defines "mo \<equiv> \<lparr>parent_mo_or_dn = vnic_templ_dn, default_net = ''no'', name = vlan_name\<rparr>"
  obtains (submit_raised) e s' where
      "add_vlan_to_vnic_template ucsm vnic_templ_dn vlan_name False s
         = (Inl (Fail_json (Msg_exn e)), s')"
      "trace s' = trace s @ [(Add_mo mo, Raised e)]" "results s' = results s"
      "\<exists>r'. fst (ucsm r' (Add_mo mo)) = Raised e"
  | (apply_raised) v e s' where
      "add_vlan_to_vnic_template ucsm vnic_templ_dn vlan_name False s
         = (Inl (Fail_json (Msg_exn e)), s')"
      "trace s' = trace s @ [(Add_mo mo, Returned v), (Commit, Raised e)]"
      "results s' = results s" "\<exists>r'. fst (ucsm r' Commit) = Raised e"
  | (returned) v w s' where
      "add_vlan_to_vnic_template ucsm vnic_templ_dn vlan_name False s = (Inr (), s')"
      "trace s' = trace s @ [(Add_mo mo, Returned v), (Commit, Returned w)]"
      "results s' = (results s)(''changed'' \<mapsto> True)"
  apply atomize_elim
  apply (cases "ucsm (remote s) (Add_mo mo)")
  subgoal for rep1 r1
    apply (cases "ucsm r1 Commit")
    subgoal for rep2 r2
      by (cases rep1; cases rep2)
         (auto simp: add_vlan_to_vnic_template_def hcall_def mo_def
               intro: exI[of _ "remote s"] exI[of _ r1])
    done
  done

lemma main_cases [consumes 1, case_names invalid login_raised query_dn_raised
    query_classid_raised not_on_fi on_vnic_logout_raised on_vnic_ok add_raised
    commit_raised added_logout_raised added_ok]:
  fixes ucsm :: "'r ucs_handle"
  assumes run: "main ucsm a r = (st, s)"
  defines "dn \<equiv> resolve (param_org a) (param_vnic_template_name a)"
  defines "q1 \<equiv> Query_dn (dn @ ''/if-'' @ param_vlan_name a)"
  defines "q2 \<equiv> Query_classid ''fabricVlan'' (filter_string (param_vlan_name a))"
  defines "mo \<equiv> \<lparr>parent_mo_or_dn = dn, default_net = ''no'', name = param_vlan_name a\<rparr>"
  obtains
    (invalid) "get_policy_owner a \<notin> set policy_owner_choices"
      "st = Invalid_argument ''policy_owner''" "trace s = []" "results s = Map.empty"
      "remote s = r"
  | (login_raised) e where "get_policy_owner a \<in> set policy_owner_choices"
      "trace s = [(Login, Raised e)]" "st = Fail_json (Msg_exn e)" "results s = Map.empty"
      "\<exists>r'. fst (ucsm r' Login) = Raised e"
  | (query_dn_raised) vl e where "get_policy_owner a \<in> set policy_owner_choices"
      "trace s = [(Login, Returned vl), (q1, Raised e)]" "st = Uncaught e"
      "results s = [''logged_in'' \<mapsto> True]" "\<exists>r'. fst (ucsm r' q1) = Raised e"
  | (query_classid_raised) vl vq e where "get_policy_owner a \<in> set policy_owner_choices"
      "trace s = [(Login, Returned vl), (q1, Returned vq), (q2, Raised e)]"
      "st = Uncaught e" "results s = [''logged_in'' \<mapsto> True]"
      "\<exists>r'. fst (ucsm r' q2) = Raised e"
  | (not_on_fi) vl vq vf where "get_policy_owner a \<in> set policy_owner_choices"
      "\<not> truthy vf"
      "trace s = [(Login, Returned vl), (q1, Returned vq), (q2, Returned vf)]"
      "st = Fail_json (Msg_str ''VLAN does not exist on UCS Fabric Interconnects'')"
      "results s = [''logged_in'' \<mapsto> True, ''changed'' \<mapsto> False]"
  | (on_vnic_logout_raised) vl vq vf e where "get_policy_owner a \<in> set policy_owner_choices"
      "truthy vf" "truthy vq"
      "trace s = [(Login, Returned vl), (q1, Returned vq), (q2, Returned vf),
                  (Logout, Raised e)]"
      "st = Fail_json (Msg_exn e)"
      "results s = [''logged_in'' \<mapsto> True, ''changed'' \<mapsto> False]"
      "\<exists>r'. fst (ucsm r' Logout) = Raised e"
  | (on_vnic_ok) vl vq vf vo where "get_policy_owner a \<in> set policy_owner_choices"
      "truthy vf" "truthy vq"
      "trace s = [(Login, Returned vl), (q1, Returned vq), (q2, Returned vf),
                  (Logout, Returned vo)]"
      "st = Exit_json (results s)"
      "results s = [''logged_in'' \<mapsto> True, ''changed'' \<mapsto> False, ''logged_out'' \<mapsto> True]"
  | (add_raised) vl vq vf e where "get_policy_owner a \<in> set policy_owner_choices"
      "truthy vf" "\<not> truthy vq"
      "trace s = [(Login, Returned vl), (q1, Returned vq), (q2, Returned vf),
                  (Add_mo mo, Raised e)]"
      "st = Fail_json (Msg_exn e)"
      "results s = [''logged_in'' \<mapsto> True]"
      "\<exists>r'. fst (ucsm r' (Add_mo mo)) = Raised e"
  | (commit_raised) vl vq vf va e where "get_policy_owner a \<in> set policy_owner_choices"
      "truthy vf" "\<not> truthy vq"
      "trace s = [(Login, Returned vl), (q1, Returned vq), (q2, Returned vf),
                  (Add_mo mo, Returned va), (Commit, Raised e)]"
      "st = Fail_json (Msg_exn e)"
      "results s = [''logged_in'' \<mapsto> True]"
      "\<exists>r'. fst (ucsm r' Commit) = Raised e"
  | (added_logout_raised) vl vq vf va vc e where
      "get_policy_owner a \<in> set policy_owner_choices"
      "truthy vf" "\<not> truthy vq"
      "trace s = [(Login, Returned vl), (q1, Returned vq), (q2, Returned vf),
                  (Add_mo mo, Returned va), (Commit, Returned vc), (Logout, Raised e)]"
      "st = Fail_json (Msg_exn e)"
      "results s = [''logged_in'' \<mapsto> True, ''changed'' \<mapsto> True]"
      "\<exists>r'. fst (ucsm r' Logout) = Raised e"
  | (added_ok) vl vq vf va vc vo where "get_policy_owner a \<in> set policy_owner_choices"
      "truthy vf" "\<not> truthy vq"
      "trace s = [(Login, Returned vl), (q1, Returned vq), (q2, Returned vf),
                  (Add_mo mo, Returned va), (Commit, Returned vc), (Logout, Returned vo)]"
      "st = Exit_json (results s)"
      "results s = [''logged_in'' \<mapsto> True, ''changed'' \<mapsto> True, ''logged_out'' \<mapsto> True]"
proof (cases "get_policy_owner a \<in> set policy_owner_choices")
  case False
  with run show ?thesis by (intro invalid) (auto simp: main_def init_run_def)
next
  case valid: True
  note [simp] = main_def Let_def dn_def q1_def q2_def mo_def
  have init: "trace (init_run r) = []" "results (init_run r) = Map.empty"
    by (simp_all add: init_run_def)
  show ?thesis
  proof (cases rule: log_into_ucs_cases[of ucsm "init_run r"])
    case (raised e s0)
    with run valid init show ?thesis by (intro login_raised[where e = e]) auto
  next
    case l: (returned vl s0)
    show ?thesis
    proof (cases rule: check_if_vlan_on_vnic_cases[of ucsm dn "param_vlan_name a" s0])
      case (raised e s1)
      with run valid init l show ?thesis by (intro query_dn_raised[where vl = vl and e = e]) auto
    next
      case a1: (returned vq s1)
      show ?thesis
      proof (cases rule: check_vlan_exists_on_fi_cases[of ucsm "param_vlan_name a" s1])
        case (raised e s2)
        with run valid init l a1 show ?thesis
          by (intro query_classid_raised[where vl = vl and vq = vq and e = e]) auto
      next
        case a2: (returned vf s2)
        show ?thesis
        proof (cases "truthy vf")
          case False
          with run valid init l a1 a2 show ?thesis
            by (intro not_on_fi[where vl = vl and vq = vq and vf = vf]) auto
        next
          case fi: True
          show ?thesis
          proof (cases "truthy vq")
            case on: True
            show ?thesis
            proof (cases rule: log_out_of_ucs_cases[of ucsm
                "s2\<lparr>results := (results s2)(''changed'' \<mapsto> False)\<rparr>"])
              case (raised e s4)
              with run valid init l a1 a2 fi on show ?thesis
                by (intro on_vnic_logout_raised[where vl = vl and vq = vq and vf = vf and e = e]) auto
            next
              case (returned vo s4)
              with run valid init l a1 a2 fi on show ?thesis
                by (intro on_vnic_ok[where vl = vl and vq = vq and vf = vf and vo = vo]) auto
            qed
          next
            case off: False
            show ?thesis
            proof (cases rule: add_vlan_to_vnic_template_cases[of ucsm dn
                "param_vlan_name a" s2])
              case (submit_raised e s3)
              with run valid init l a1 a2 fi off show ?thesis
                by (intro add_raised[where vl = vl and vq = vq and vf = vf and e = e]) auto
            next
              case (apply_raised va e s3)
              with run valid init l a1 a2 fi off show ?thesis
                by (intro commit_raised[where vl = vl and vq = vq and vf = vf and va = va and e = e]) auto
            next
              case w: (returned va vc s3)
              show ?thesis
              proof (cases rule: log_out_of_ucs_cases[of ucsm s3])
                case (raised e s4)
                with run valid init l a1 a2 fi off w show ?thesis
                  by (intro added_logout_raised[where vl = vl and vq = vq and vf = vf and va = va and vc = vc and e = e]) auto
              next
                case (returned vo s4)
                with run valid init l a1 a2 fi off w show ?thesis
                  by (intro added_ok[where vl = vl and vq = vq and vf = vf and va = va and vc = vc and vo = vo]) auto
              qed
            qed
          qed
        qed
      qed
    qed
  qed
qed

section \<open>Example runs\<close>

text \<open>The module run against the simulated UCS Manager, for the example of its documentation.\<close>

lemmas eval_defs = main_def log_into_ucs_def log_out_of_ucs_def check_if_vlan_on_vnic_def
  check_vlan_exists_on_fi_def add_vlan_to_vnic_template_def hcall_def init_run_def Let_def
  example_args_def fabric_only_def no_vlan_def associated_def resolve_def filter_string_def
  policy_owner_choices_def get_policy_owner_def example_dn_def example_mo_def
  login_ok_def target_miss_def target_hit_def fabric_miss_def fabric_hit_def rejected_def

lemma run_add:
  "main (ucsm_sim []) example_args fabric_only =
     (Exit_json [''logged_in'' \<mapsto> True, ''changed'' \<mapsto> True, ''logged_out'' \<mapsto> True],
      \<lparr>remote = associated,
       trace = [login_ok, target_miss, fabric_hit, (Add_mo example_mo, Returned PNone),
                (Commit, Returned PNone), (Logout, Returned PNone)],
       results = [''logged_in'' \<mapsto> True, ''changed'' \<mapsto> True, ''logged_out'' \<mapsto> True]\<rparr>)"
  by (simp add: eval_defs)

lemma run_noop:
  "main (ucsm_sim []) example_args associated =
     (Exit_json [''logged_in'' \<mapsto> True, ''changed'' \<mapsto> False, ''logged_out'' \<mapsto> True],
      \<lparr>remote = associated,
       trace = [login_ok, target_hit, fabric_hit, (Logout, Returned PNone)],
       results = [''logged_in'' \<mapsto> True, ''changed'' \<mapsto> False, ''logged_out'' \<mapsto> True]\<rparr>)"
  by (simp add: eval_defs)

lemma run_absent:
  "main (ucsm_sim []) example_args no_vlan =
     (Fail_json (Msg_str ''VLAN does not exist on UCS Fabric Interconnects''),
      \<lparr>remote = no_vlan,
       trace = [login_ok, target_miss, fabric_miss],
       results = [''logged_in'' \<mapsto> True, ''changed'' \<mapsto> False]\<rparr>)"
  by (simp add: eval_defs)

lemma run_add_logout_raises:
  "main (ucsm_sim [Logout]) example_args fabric_only =
     (Fail_json (Msg_exn (Exception ''rejected'')),
      \<lparr>remote = associated,
       trace = [login_ok, target_miss, fabric_hit, (Add_mo example_mo, Returned PNone),
                (Commit, Returned PNone), (Logout, rejected)],
       results = [''logged_in'' \<mapsto> True, ''changed'' \<mapsto> True]\<rparr>)"
  by (simp add: eval_defs)

lemma run_noop_logout_raises:
  "main (ucsm_sim [Logout]) example_args associated =
     (Fail_json (Msg_exn (Exception ''rejected'')),
      \<lparr>remote = associated,
       trace = [login_ok, target_hit, fabric_hit, (Logout, rejected)],
       results = [''logged_in'' \<mapsto> True, ''changed'' \<mapsto> False]\<rparr>)"
  by (simp add: eval_defs)

lemma run_add_raises:
  "main (ucsm_sim [Add_mo example_mo]) example_args fabric_only =
     (Fail_json (Msg_exn (Exception ''rejected'')),
      \<lparr>remote = fabric_only,
       trace = [login_ok, target_miss, fabric_hit, (Add_mo example_mo, rejected)],
       results = [''logged_in'' \<mapsto> True]\<rparr>)"
  by (simp add: eval_defs)

lemma run_commit_raises:
  "main (ucsm_sim [Commit]) example_args fabric_only =
     (Fail_json (Msg_exn (Exception ''rejected'')),
      \<lparr>remote = fabric_only\<lparr>uncommitted := [example_mo]\<rparr>,
       trace = [login_ok, target_miss, fabric_hit, (Add_mo example_mo, Returned PNone),
                (Commit, rejected)],
       results = [''logged_in'' \<mapsto> True]\<rparr>)"
  by (simp add: eval_defs)

lemma run_no_org:
  "main (ucsm_sim []) no_org_args fabric_only =
     (Exit_json [''logged_in'' \<mapsto> True, ''changed'' \<mapsto> True, ''logged_out'' \<mapsto> True],
      \<lparr>remote = fabric_only\<lparr>objects := [''lan-conn-templ-data-A/if-test-vlan_666'']\<rparr>,
       trace = [login_ok, (Query_dn ''lan-conn-templ-data-A/if-test-vlan_666'', Returned PNone),
                fabric_hit, (Add_mo no_org_mo, Returned PNone), (Commit, Returned PNone),
                (Logout, Returned PNone)],
       results = [''logged_in'' \<mapsto> True, ''changed'' \<mapsto> True, ''logged_out'' \<mapsto> True]\<rparr>)"
  by (simp add: eval_defs no_org_args_def no_org_mo_def)

lemma example_queries:
  "param_vlan_name example_args = ''test-vlan_666''"
  "resolve (param_org example_args) (param_vnic_template_name example_args) = example_dn"
  by (simp_all add: example_args_def resolve_def example_dn_def)

lemma raised_reply:
  "fst (ucsm r' c) = Raised e \<Longrightarrow> \<exists>r' c. is_raised (fst (ucsm r' c))"
  by (metis is_raised.simps(1))

lemma org_loop_append:
  "org_loop acc org = acc @ concat (map (\<lambda>org_name. ''org-'' @ org_name @ ''/'') org)"
  by (induction org arbitrary: acc) simp_all

section \<open>Properties of the module\<close>

text \<open>
  The properties hold for every handle, every state of UCS Manager and all arguments.
  That a call returned a value, or raised, is read off the trace of the run, which holds
  each call with the reply the handle gave to it.
\<close>

text \<open>
  C1: a write (\<open>add_mo\<close> or \<open>commit\<close>) is made only after the query of
  \<open>check_vlan_exists_on_fi\<close> has returned a true value in the same run: before any write
  of a trace there is exactly one query of the fabric, the one for the VLAN of the run,
  and it returned a true value. So no write follows a fabric query that returned false.
\<close>

theorem write_only_after_fabric_check:
  assumes "main ucsm a r = (st, s)" and "trace s = pre @ (c, rep) # post" and "is_write c"
  shows "\<exists>v. fabric_queries pre =
           [(Query_classid ''fabricVlan'' (filter_string (param_vlan_name a)), Returned v)]
         \<and> truthy v"
  using assms
  by (cases rule: main_cases)
     (auto simp: append_eq_Cons_conv Cons_eq_append_conv fabric_queries_def)

theorem write_only_after_fabric_check_witness:
  "main (ucsm_sim []) example_args fabric_only =
     (fst (main (ucsm_sim []) example_args fabric_only),
      snd (main (ucsm_sim []) example_args fabric_only))
   \<and> trace (snd (main (ucsm_sim []) example_args fabric_only)) =
       [login_ok, target_miss, fabric_hit] @
       (Add_mo example_mo, Returned PNone) # [(Commit, Returned PNone), (Logout, Returned PNone)]
   \<and> is_write (Add_mo example_mo)
   \<and> (\<exists>v. fabric_queries [login_ok, target_miss, fabric_hit] =
            [(Query_classid ''fabricVlan'' (filter_string (param_vlan_name example_args)),
              Returned v)]
          \<and> truthy v)"
proof -
  have run: "main (ucsm_sim []) example_args fabric_only =
     (fst (main (ucsm_sim []) example_args fabric_only),
      snd (main (ucsm_sim []) example_args fabric_only))"
    by simp
  have tr: "trace (snd (main (ucsm_sim []) example_args fabric_only)) =
       [login_ok, target_miss, fabric_hit] @
       (Add_mo example_mo, Returned PNone) # [(Commit, Returned PNone), (Logout, Returned PNone)]"
    by (simp add: run_add)
  have w: "is_write (Add_mo example_mo)"
    by simp
  from write_only_after_fabric_check [OF run tr w] run tr w show ?thesis
    by blast
qed

text \<open>
  C2, as the module has it: when the query of the fabric returns a false value, the run
  ends in \<open>fail_json\<close> with the message \<open>VLAN does not exist on UCS Fabric Interconnects\<close>,
  the dictionary \<open>results\<close> holds \<open>changed = False\<close> and the run has made no write,
  whatever the query of the template returned. The message of the specification,
  \<open>VLAN does not exist on Fabric Interconnects\<close>, is not the one of the module.
\<close>

theorem fabric_absent_fails:
  assumes "main ucsm a r = (st, s)"
    and "(Query_classid ''fabricVlan'' (filter_string (param_vlan_name a)), Returned v)
           \<in> set (trace s)"
    and "\<not> truthy v"
  shows "st = Fail_json (Msg_str ''VLAN does not exist on UCS Fabric Interconnects'')
         \<and> results s ''changed'' = Some False \<and> writes (trace s) = []"
  using assms
  by (cases rule: main_cases) (auto simp: writes_def)

theorem fabric_absent_fails_witness:
  "main (ucsm_sim []) example_args no_vlan =
     (fst (main (ucsm_sim []) example_args no_vlan),
      snd (main (ucsm_sim []) example_args no_vlan))
   \<and> (Query_classid ''fabricVlan'' (filter_string (param_vlan_name example_args)),
        Returned (PList []))
       \<in> set (trace (snd (main (ucsm_sim []) example_args no_vlan)))
   \<and> \<not> truthy (PList [])
   \<and> fst (main (ucsm_sim []) example_args no_vlan) =
       Fail_json (Msg_str ''VLAN does not exist on UCS Fabric Interconnects'')
   \<and> results (snd (main (ucsm_sim []) example_args no_vlan)) ''changed'' = Some False
   \<and> writes (trace (snd (main (ucsm_sim []) example_args no_vlan))) = []"
proof -
  have run: "main (ucsm_sim []) example_args no_vlan =
     (fst (main (ucsm_sim []) example_args no_vlan),
      snd (main (ucsm_sim []) example_args no_vlan))"
    by simp
  have q: "(Query_classid ''fabricVlan'' (filter_string (param_vlan_name example_args)),
        Returned (PList []))
       \<in> set (trace (snd (main (ucsm_sim []) example_args no_vlan)))"
    by (simp add: run_absent fabric_miss_def example_queries)
  have f: "\<not> truthy (PList [])"
    by simp
  from fabric_absent_fails [OF run q f] run q f show ?thesis
    by blast
qed

theorem fabric_absent_message_counterexample:
  "(Query_classid ''fabricVlan'' (filter_string (param_vlan_name example_args)),
      Returned (PList []))
     \<in> set (trace (snd (main (ucsm_sim []) example_args no_vlan)))
   \<and> \<not> truthy (PList [])
   \<and> fst (main (ucsm_sim []) example_args no_vlan) \<noteq>
       Fail_json (Msg_str ''VLAN does not exist on Fabric Interconnects'')"
  by (simp add: run_absent fabric_miss_def example_queries)

text \<open>
  C3, as the module has it: when the query of the fabric returns a true value and the
  query of the template a false one, the run issues exactly one \<open>add_mo\<close>, for the VLAN
  under the template, followed by exactly one \<open>commit\<close> when the \<open>add_mo\<close> returns, and no
  other write. When either raises, the run fails with that exception as its message.
  When both return, the run logs out: it exits with the results
  \<open>{logged_in: true, logged_out: true, changed: true}\<close> when the logout returns, and fails
  with the exception of the logout when it raises.
\<close>

theorem missing_vlan_is_added:
  fixes a :: args
  defines "mo \<equiv> \<lparr>parent_mo_or_dn = resolve (param_org a) (param_vnic_template_name a),
                      default_net = ''no'', name = param_vlan_name a\<rparr>"
  assumes "main ucsm a r = (st, s)"
    and "(Query_classid ''fabricVlan'' (filter_string (param_vlan_name a)), Returned vf)
           \<in> set (trace s)"
    and "truthy vf"
    and "(Query_dn (resolve (param_org a) (param_vnic_template_name a) @ ''/if-'' @
            param_vlan_name a), Returned vq) \<in> set (trace s)"
    and "\<not> truthy vq"
  shows "(\<exists>e. writes (trace s) = [(Add_mo mo, Raised e)] \<and> st = Fail_json (Msg_exn e)) \<or>
         (\<exists>va e. writes (trace s) = [(Add_mo mo, Returned va), (Commit, Raised e)] \<and>
                  st = Fail_json (Msg_exn e)) \<or>
         (\<exists>va vc. writes (trace s) = [(Add_mo mo, Returned va), (Commit, Returned vc)] \<and>
            ((\<exists>vo. last (trace s) = (Logout, Returned vo) \<and>
                st = Exit_json [''logged_in'' \<mapsto> True, ''logged_out'' \<mapsto> True,
                                ''changed'' \<mapsto> True]) \<or>
             (\<exists>e. last (trace s) = (Logout, Raised e) \<and> st = Fail_json (Msg_exn e))))"
  using assms(2-) unfolding mo_def
  by (cases rule: main_cases) (auto simp: writes_def fun_upd_twist)

theorem missing_vlan_is_added_witness:
  "main (ucsm_sim []) example_args fabric_only =
     (fst (main (ucsm_sim []) example_args fabric_only),
      snd (main (ucsm_sim []) example_args fabric_only))
   \<and> (Query_classid ''fabricVlan'' (filter_string (param_vlan_name example_args)),
        Returned (PList [ManagedObject ''fabric/lan/net-test-vlan_666'']))
       \<in> set (trace (snd (main (ucsm_sim []) example_args fabric_only)))
   \<and> truthy (PList [ManagedObject ''fabric/lan/net-test-vlan_666''])
   \<and> (Query_dn (resolve (param_org example_args) (param_vnic_template_name example_args) @
          ''/if-'' @ param_vlan_name example_args), Returned PNone)
       \<in> set (trace (snd (main (ucsm_sim []) example_args fabric_only)))
   \<and> \<not> truthy PNone
   \<and> writes (trace (snd (main (ucsm_sim []) example_args fabric_only))) =
       [(Add_mo example_mo, Returned PNone), (Commit, Returned PNone)]
   \<and> last (trace (snd (main (ucsm_sim []) example_args fabric_only))) =
       (Logout, Returned PNone)
   \<and> fst (main (ucsm_sim []) example_args fabric_only) =
       Exit_json [''logged_in'' \<mapsto> True, ''logged_out'' \<mapsto> True, ''changed'' \<mapsto> True]"
proof -
  have run: "main (ucsm_sim []) example_args fabric_only =
     (fst (main (ucsm_sim []) example_args fabric_only),
      snd (main (ucsm_sim []) example_args fabric_only))"
    by simp
  have qf: "(Query_classid ''fabricVlan'' (filter_string (param_vlan_name example_args)),
        Returned (PList [ManagedObject ''fabric/lan/net-test-vlan_666'']))
       \<in> set (trace (snd (main (ucsm_sim []) example_args fabric_only)))"
    by (simp add: run_add fabric_hit_def example_queries)
  have tf: "truthy (PList [ManagedObject ''fabric/lan/net-test-vlan_666''])"
    by simp
  have qt: "(Query_dn (resolve (param_org example_args) (param_vnic_template_name example_args) @
          ''/if-'' @ param_vlan_name example_args), Returned PNone)
       \<in> set (trace (snd (main (ucsm_sim []) example_args fabric_only)))"
    by (simp add: run_add target_miss_def example_queries)
  have tt: "\<not> truthy PNone"
    by simp
  have w: "writes (trace (snd (main (ucsm_sim []) example_args fabric_only))) =
       [(Add_mo example_mo, Returned PNone), (Commit, Returned PNone)]"
    by (simp add: run_add writes_def login_ok_def target_miss_def fabric_hit_def)
  have l: "last (trace (snd (main (ucsm_sim []) example_args fabric_only))) =
       (Logout, Returned PNone)"
    by (simp add: run_add)
  from missing_vlan_is_added [OF run qf tf qt tt] w l
  have "fst (main (ucsm_sim []) example_args fabric_only) =
       Exit_json [''logged_in'' \<mapsto> True, ''logged_out'' \<mapsto> True, ''changed'' \<mapsto> True]"
    by auto
  with run qf tf qt tt w l show ?thesis
    by blast
qed

text \<open>
  Two runs in which the fabric has the VLAN and the template has not: in the first the
  \<open>add_mo\<close> raises and no \<open>commit\<close> is issued, in the second both writes return and the
  logout raises, so the run ends in \<open>fail_json\<close>.
\<close>

theorem missing_vlan_is_added_counterexample:
  "fabric_hit \<in> set (trace (snd (main (ucsm_sim [Add_mo example_mo]) example_args fabric_only)))
   \<and> target_miss \<in> set (trace (snd (main (ucsm_sim [Add_mo example_mo]) example_args fabric_only)))
   \<and> writes (trace (snd (main (ucsm_sim [Add_mo example_mo]) example_args fabric_only))) =
       [(Add_mo example_mo, rejected)]
   \<and> fabric_hit \<in> set (trace (snd (main (ucsm_sim [Logout]) example_args fabric_only)))
   \<and> target_miss \<in> set (trace (snd (main (ucsm_sim [Logout]) example_args fabric_only)))
   \<and> writes (trace (snd (main (ucsm_sim [Logout]) example_args fabric_only))) =
       [(Add_mo example_mo, Returned PNone), (Commit, Returned PNone)]
   \<and> fst (main (ucsm_sim [Logout]) example_args fabric_only) =
       Fail_json (Msg_exn (Exception ''rejected''))"
  by (simp add: run_add_raises run_add_logout_raises writes_def login_ok_def target_miss_def
        fabric_hit_def)

text \<open>
  C4, as the module has it: when the query of the fabric and the query of the template
  both return a true value, the run makes no write and sets \<open>changed = False\<close> in its
  results; it then logs out, and exits with the results
  \<open>{logged_in: true, logged_out: true, changed: false}\<close> when the logout returns, and fails
  with the exception of the logout when it raises.
\<close>

theorem present_vlan_is_kept:
  assumes "main ucsm a r = (st, s)"
    and "(Query_classid ''fabricVlan'' (filter_string (param_vlan_name a)), Returned vf)
           \<in> set (trace s)"
    and "truthy vf"
    and "(Query_dn (resolve (param_org a) (param_vnic_template_name a) @ ''/if-'' @
            param_vlan_name a), Returned vq) \<in> set (trace s)"
    and "truthy vq"
  shows "writes (trace s) = [] \<and> results s ''changed'' = Some False \<and>
         ((\<exists>vo. last (trace s) = (Logout, Returned vo) \<and>
                st = Exit_json [''logged_in'' \<mapsto> True, ''logged_out'' \<mapsto> True,
                                ''changed'' \<mapsto> False]) \<or>
          (\<exists>e. last (trace s) = (Logout, Raised e) \<and> st = Fail_json (Msg_exn e)))"
  using assms
  by (cases rule: main_cases) (auto simp: writes_def fun_upd_twist)

theorem present_vlan_is_kept_witness:
  "main (ucsm_sim []) example_args associated =
     (fst (main (ucsm_sim []) example_args associated),
      snd (main (ucsm_sim []) example_args associated))
   \<and> (Query_classid ''fabricVlan'' (filter_string (param_vlan_name example_args)),
        Returned (PList [ManagedObject ''fabric/lan/net-test-vlan_666'']))
       \<in> set (trace (snd (main (ucsm_sim []) example_args associated)))
   \<and> truthy (PList [ManagedObject ''fabric/lan/net-test-vlan_666''])
   \<and> (Query_dn (resolve (param_org example_args) (param_vnic_template_name example_args) @
          ''/if-'' @ param_vlan_name example_args),
        Returned (PObj (ManagedObject (example_dn @ ''/if-test-vlan_666''))))
       \<in> set (trace (snd (main (ucsm_sim []) example_args associated)))
   \<and> truthy (PObj (ManagedObject (example_dn @ ''/if-test-vlan_666'')))
   \<and> writes (trace (snd (main (ucsm_sim []) example_args associated))) = []
   \<and> results (snd (main (ucsm_sim []) example_args associated)) ''changed'' = Some False
   \<and> last (trace (snd (main (ucsm_sim []) example_args associated))) =
       (Logout, Returned PNone)
   \<and> fst (main (ucsm_sim []) example_args associated) =
       Exit_json [''logged_in'' \<mapsto> True, ''logged_out'' \<mapsto> True, ''changed'' \<mapsto> False]"
proof -
  have run: "main (ucsm_sim []) example_args associated =
     (fst (main (ucsm_sim []) example_args associated),
      snd (main (ucsm_sim []) example_args associated))"
    by simp
  have qf: "(Query_classid ''fabricVlan'' (filter_string (param_vlan_name example_args)),
        Returned (PList [ManagedObject ''fabric/lan/net-test-vlan_666'']))
       \<in> set (trace (snd (main (ucsm_sim []) example_args associated)))"
    by (simp add: run_noop fabric_hit_def example_queries)
  have tf: "truthy (PList [ManagedObject ''fabric/lan/net-test-vlan_666''])"
    by simp
  have qt: "(Query_dn (resolve (param_org example_args) (param_vnic_template_name example_args) @
          ''/if-'' @ param_vlan_name example_args),
        Returned (PObj (ManagedObject (example_dn @ ''/if-test-vlan_666''))))
       \<in> set (trace (snd (main (ucsm_sim []) example_args associated)))"
    by (simp add: run_noop target_hit_def example_queries)
  have tt: "truthy (PObj (ManagedObject (example_dn @ ''/if-test-vlan_666'')))"
    by simp
  have l: "last (trace (snd (main (ucsm_sim []) example_args associated))) =
       (Logout, Returned PNone)"
    by (simp add: run_noop)
  from present_vlan_is_kept [OF run qf tf qt tt] l
  have "writes (trace (snd (main (ucsm_sim []) example_args associated))) = []
     \<and> results (snd (main (ucsm_sim []) example_args associated)) ''changed'' = Some False
     \<and> fst (main (ucsm_sim []) example_args associated) =
       Exit_json [''logged_in'' \<mapsto> True, ''logged_out'' \<mapsto> True, ''changed'' \<mapsto> False]"
    by auto
  with run qf tf qt tt l show ?thesis
    by blast
qed

text \<open>
  A run in which the fabric and the template both have the VLAN and the logout raises:
  it ends in \<open>fail_json\<close>, not in \<open>exit_json\<close>.
\<close>

theorem present_vlan_is_kept_counterexample:
  "fabric_hit \<in> set (trace (snd (main (ucsm_sim [Logout]) example_args associated)))
   \<and> target_hit \<in> set (trace (snd (main (ucsm_sim [Logout]) example_args associated)))
   \<and> fst (main (ucsm_sim [Logout]) example_args associated) =
       Fail_json (Msg_exn (Exception ''rejected''))"
  by (simp add: run_noop_logout_raises)

text \<open>
  C5: a run that has logged in logs out before it ends. The module does not: where the
  fabric lacks the VLAN it logs in, makes its two queries and ends in \<open>fail_json\<close>, and
  \<open>logout\<close> is never called; the same holds where a write raises. The two branches of
  \<open>main\<close> that end in \<open>exit_json\<close> do log out first.
\<close>

theorem fabric_absent_never_logs_out:
  "fst (main (ucsm_sim []) example_args no_vlan) =
     Fail_json (Msg_str ''VLAN does not exist on UCS Fabric Interconnects'')
   \<and> trace (snd (main (ucsm_sim []) example_args no_vlan)) =
       [(Login, Returned PNone), target_miss, fabric_miss]
   \<and> Logout \<notin> fst ` set (trace (snd (main (ucsm_sim []) example_args no_vlan)))
   \<and> trace (snd (main (ucsm_sim [Commit]) example_args fabric_only)) =
       [(Login, Returned PNone), target_miss, fabric_hit, (Add_mo example_mo, Returned PNone),
        (Commit, rejected)]
   \<and> Logout \<notin> fst ` set (trace (snd (main (ucsm_sim [Commit]) example_args fabric_only)))"
  by (simp add: run_absent run_commit_raises login_ok_def target_miss_def fabric_miss_def
        fabric_hit_def)

text \<open>
  C6: when \<open>add_mo\<close> or \<open>commit\<close> raises, the run fails with the exception as its message
  and the results are marked \<open>changed = False\<close>. The module fails with the exception, but
  marks nothing: \<open>fail_json\<close> ends the run before the assignment that follows it in the
  handler, and the results hold no \<open>changed\<close> at all.
\<close>

theorem write_failure_leaves_changed_unset:
  "fst (main (ucsm_sim [Add_mo example_mo]) example_args fabric_only) =
     Fail_json (Msg_exn (Exception ''rejected''))
   \<and> results (snd (main (ucsm_sim [Add_mo example_mo]) example_args fabric_only)) ''changed''
       = None
   \<and> fst (main (ucsm_sim [Commit]) example_args fabric_only) =
       Fail_json (Msg_exn (Exception ''rejected''))
   \<and> results (snd (main (ucsm_sim [Commit]) example_args fabric_only)) ''changed'' = None"
  by (simp add: run_add_raises run_commit_raises)

text \<open>
  C7: the path of the template is a function of the list \<open>org\<close> and the name of the
  template alone: \<open>org-\<close>, the segment and \<open>/\<close> for each segment in order, then
  \<open>lan-conn-templ-\<close> and the name. For \<open>["root", "ccl"]\<close> and \<open>data-A\<close> it is
  \<open>org-root/org-ccl/lan-conn-templ-data-A\<close>.
\<close>

theorem resolve_concat:
  "resolve org vnic_template_name =
     concat (map (\<lambda>org_name. ''org-'' @ org_name @ ''/'') org) @
     ''lan-conn-templ-'' @ vnic_template_name
   \<and> resolve [''root'', ''ccl''] ''data-A'' = ''org-root/org-ccl/lan-conn-templ-data-A''"
  by (simp add: resolve_def org_loop_append)



text \<open>
  C9: \<open>policy_owner\<close> has no effect. Two runs whose arguments differ in \<open>policy_owner\<close>
  alone, each value being an accepted one or left to its default, make the same calls,
  get the same replies and end the same way, with the same results.
\<close>

theorem policy_owner_is_inert:
  assumes "a' = a\<lparr>param_policy_owner := po\<rparr>"
    and "get_policy_owner a \<in> set policy_owner_choices"
    and "get_policy_owner a' \<in> set policy_owner_choices"
  shows "main ucsm a' r = main ucsm a r"
  using assms by (simp add: main_def)

theorem policy_owner_is_inert_witness:
  "example_args\<lparr>param_policy_owner := Some ''policy''\<rparr> =
     example_args\<lparr>param_policy_owner := Some ''policy''\<rparr>
   \<and> get_policy_owner example_args \<in> set policy_owner_choices
   \<and> get_policy_owner (example_args\<lparr>param_policy_owner := Some ''policy''\<rparr>)
       \<in> set policy_owner_choices
   \<and> main (ucsm_sim []) (example_args\<lparr>param_policy_owner := Some ''policy''\<rparr>) fabric_only =
       main (ucsm_sim []) example_args fabric_only"
proof -
  have old: "get_policy_owner example_args \<in> set policy_owner_choices"
    by (simp add: get_policy_owner_def example_args_def policy_owner_choices_def)
  have new: "get_policy_owner (example_args\<lparr>param_policy_owner := Some ''policy''\<rparr>)
       \<in> set policy_owner_choices"
    by (simp add: get_policy_owner_def policy_owner_choices_def)
  from policy_owner_is_inert [OF refl old new, of "ucsm_sim []" fabric_only] old new
  show ?thesis
    by simp
qed

text \<open>
  C10: with an empty \<open>org\<close> the path of the template is \<open>lan-conn-templ-\<close> and the name of
  the template, with nothing before it, and the run goes on with that path without error.
  The run starts with the login; when the login returns, its next call is the query for
  the VLAN under that path; any \<open>add_mo\<close> it makes has that path as parent. A call is
  recorded as raised only when UCS Manager raised, and when no call raised the run ends
  as a run with any other \<open>org\<close> does: in \<open>exit_json\<close> with its results, logged in and
  out, when the fabric has the VLAN, and in the \<open>fail_json\<close> of the missing VLAN when it
  has not.
\<close>

theorem empty_org_path:
  assumes "param_org a = []" and "main ucsm a r = (st, s)"
    and "get_policy_owner a \<in> set policy_owner_choices"
  shows "resolve (param_org a) (param_vnic_template_name a) =
           ''lan-conn-templ-'' @ param_vnic_template_name a
         \<and> (\<exists>rep rest. trace s = (Login, rep) # rest \<and>
               (case rep of
                  Raised e \<Rightarrow> rest = [] \<and> st = Fail_json (Msg_exn e)
                | Returned vl \<Rightarrow>
                    (\<exists>rep' rest'. rest =
                       (Query_dn (''lan-conn-templ-'' @ param_vnic_template_name a @ ''/if-'' @
                          param_vlan_name a), rep') # rest')))
         \<and> (\<forall>mo rep. (Add_mo mo, rep) \<in> set (trace s) \<longrightarrow>
               parent_mo_or_dn mo = ''lan-conn-templ-'' @ param_vnic_template_name a)
         \<and> ((\<forall>r' c. \<not> is_raised (fst (ucsm r' c))) \<longrightarrow> raised_calls (trace s) = [])
         \<and> (raised_calls (trace s) = [] \<longrightarrow>
               (\<exists>vf. (Query_classid ''fabricVlan'' (filter_string (param_vlan_name a)),
                       Returned vf) \<in> set (trace s) \<and>
                    (if truthy vf
                     then st = Exit_json (results s) \<and>
                          results s ''logged_in'' = Some True \<and>
                          results s ''logged_out'' = Some True
                     else st = Fail_json
                            (Msg_str ''VLAN does not exist on UCS Fabric Interconnects''))))"
  using assms(2)
proof (cases rule: main_cases)
  case invalid
  with assms(3) show ?thesis by simp
next
  case login_raised
  with assms(1) show ?thesis by (auto simp: resolve_def raised_calls_def intro: raised_reply)
next
  case query_dn_raised
  with assms(1) show ?thesis by (auto simp: resolve_def raised_calls_def intro: raised_reply)
next
  case query_classid_raised
  with assms(1) show ?thesis by (auto simp: resolve_def raised_calls_def intro: raised_reply)
next
  case not_on_fi
  with assms(1) show ?thesis by (auto simp: resolve_def raised_calls_def intro: raised_reply)
next
  case on_vnic_logout_raised
  with assms(1) show ?thesis by (auto simp: resolve_def raised_calls_def intro: raised_reply)
next
  case on_vnic_ok
  with assms(1) show ?thesis by (auto simp: resolve_def raised_calls_def intro: raised_reply)
next
  case add_raised
  with assms(1) show ?thesis by (auto simp: resolve_def raised_calls_def intro: raised_reply)
next
  case commit_raised
  with assms(1) show ?thesis by (auto simp: resolve_def raised_calls_def intro: raised_reply)
next
  case added_logout_raised
  with assms(1) show ?thesis by (auto simp: resolve_def raised_calls_def intro: raised_reply)
next
  case added_ok
  with assms(1) show ?thesis by (auto simp: resolve_def raised_calls_def intro: raised_reply)
qed

theorem empty_org_path_witness:
  "param_org no_org_args = []
   \<and> main (ucsm_sim []) no_org_args fabric_only =
       (fst (main (ucsm_sim []) no_org_args fabric_only),
        snd (main (ucsm_sim []) no_org_args fabric_only))
   \<and> get_policy_owner no_org_args \<in> set policy_owner_choices
   \<and> resolve (param_org no_org_args) (param_vnic_template_name no_org_args) =
       ''lan-conn-templ-data-A''
   \<and> trace (snd (main (ucsm_sim []) no_org_args fabric_only)) =
       [(Login, Returned PNone),
        (Query_dn ''lan-conn-templ-data-A/if-test-vlan_666'', Returned PNone),
        fabric_hit, (Add_mo no_org_mo, Returned PNone), (Commit, Returned PNone),
        (Logout, Returned PNone)]
   \<and> parent_mo_or_dn no_org_mo = ''lan-conn-templ-data-A''
   \<and> (\<forall>r' c. \<not> is_raised (fst (ucsm_sim [] r' c)))
   \<and> raised_calls (trace (snd (main (ucsm_sim []) no_org_args fabric_only))) = []
   \<and> fst (main (ucsm_sim []) no_org_args fabric_only) =
       Exit_json (results (snd (main (ucsm_sim []) no_org_args fabric_only)))
   \<and> results (snd (main (ucsm_sim []) no_org_args fabric_only)) ''logged_in'' = Some True
   \<and> results (snd (main (ucsm_sim []) no_org_args fabric_only)) ''logged_out'' = Some True"
proof -
  have org: "param_org no_org_args = []"
    by (simp add: no_org_args_def)
  have run: "main (ucsm_sim []) no_org_args fabric_only =
       (fst (main (ucsm_sim []) no_org_args fabric_only),
        snd (main (ucsm_sim []) no_org_args fabric_only))"
    by simp
  have valid: "get_policy_owner no_org_args \<in> set policy_owner_choices"
    by (simp add: get_policy_owner_def no_org_args_def example_args_def
          policy_owner_choices_def)
  have tr: "trace (snd (main (ucsm_sim []) no_org_args fabric_only)) =
       [(Login, Returned PNone),
        (Query_dn ''lan-conn-templ-data-A/if-test-vlan_666'', Returned PNone),
        fabric_hit, (Add_mo no_org_mo, Returned PNone), (Commit, Returned PNone),
        (Logout, Returned PNone)]"
    by (simp add: run_no_org login_ok_def)
  have quiet: "\<forall>r' c. \<not> is_raised (fst (ucsm_sim [] r' c))"
  proof (intro allI)
    fix r' c
    show "\<not> is_raised (fst (ucsm_sim [] r' c))"
      by (cases c) simp_all
  qed
  have n: "param_vnic_template_name no_org_args = ''data-A''"
    by (simp add: no_org_args_def example_args_def)
  have v: "param_vlan_name no_org_args = ''test-vlan_666''"
    by (simp add: no_org_args_def example_args_def)
  note facts = empty_org_path [OF org run valid]
  from facts n
  have path: "resolve (param_org no_org_args) (param_vnic_template_name no_org_args) =
       ''lan-conn-templ-data-A''"
    by simp
  from facts n tr
  have parent: "parent_mo_or_dn no_org_mo = ''lan-conn-templ-data-A''"
    by auto
  from facts quiet
  have nr: "raised_calls (trace (snd (main (ucsm_sim []) no_org_args fabric_only))) = []"
    by blast
  with facts v
  obtain vf where vf:
    "(Query_classid ''fabricVlan'' (filter_string ''test-vlan_666''), Returned vf)
       \<in> set (trace (snd (main (ucsm_sim []) no_org_args fabric_only)))"
    "if truthy vf
     then fst (main (ucsm_sim []) no_org_args fabric_only) =
            Exit_json (results (snd (main (ucsm_sim []) no_org_args fabric_only))) \<and>
          results (snd (main (ucsm_sim []) no_org_args fabric_only)) ''logged_in'' = Some True \<and>
          results (snd (main (ucsm_sim []) no_org_args fabric_only)) ''logged_out'' = Some True
     else fst (main (ucsm_sim []) no_org_args fabric_only) =
            Fail_json (Msg_str ''VLAN does not exist on UCS Fabric Interconnects'')"
    by auto
  from vf(1) have "truthy vf"
    by (auto simp: tr fabric_hit_def)
  with vf(2)
  have fin: "fst (main (ucsm_sim []) no_org_args fabric_only) =
       Exit_json (results (snd (main (ucsm_sim []) no_org_args fabric_only)))
     \<and> results (snd (main (ucsm_sim []) no_org_args fabric_only)) ''logged_in'' = Some True
     \<and> results (snd (main (ucsm_sim []) no_org_args fabric_only)) ''logged_out'' = Some True"
    by simp
  from org run valid path tr parent quiet nr fin show ?thesis
    by blast
qed

end
